theory Spec2Isabelle
  imports Main "HOL-Library.Word"
begin

unbundle bit_operations_syntax

section \<open>The data model of chip8.go\<close>

text \<open>
  Go's \<^verbatim>\<open>byte\<close> is an 8-bit word and \<^verbatim>\<open>uint16\<close> (also the type \<^verbatim>\<open>Opcode\<close>) a
  16-bit word: \<open>+\<close> and \<open>-\<close> wrap, \<open><\<close> is the unsigned order.
\<close>

type_synonym byte = "8 word"
type_synonym uint16 = "16 word"

definition FONTSET_SIZE :: nat where [simp]: "FONTSET_SIZE = 80"
definition TWO_BYTES_SIZE :: nat where [simp]: "TWO_BYTES_SIZE = 16"
definition MEMORY_SIZE :: nat where [simp]: "MEMORY_SIZE = 4096"
definition GFX_SIZE :: nat where [simp]: "GFX_SIZE = 64 * 32"

text \<open>
  The struct \<^verbatim>\<open>Chip8\<close>. A Go array \<^verbatim>\<open>[N]byte\<close> is a function from the index to
  the byte; only the indices below \<open>N\<close> are ever read or written, since every access
  whose index can reach \<open>N\<close> is guarded in the model by the bounds check that the Go
  runtime performs there (\<^verbatim>\<open>memory\<close>: 4096, \<^verbatim>\<open>gfx\<close>: 2048, \<^verbatim>\<open>stack\<close>, \<^verbatim>\<open>key\<close> and
  \<^verbatim>\<open>V\<close>: 16). Note that a \<^verbatim>\<open>stack\<close> slot is one byte.
\<close>

record Chip8 =
  V :: "nat \<Rightarrow> byte"
  ir :: uint16
  pc :: uint16
  sp :: uint16
  opcode :: uint16
  memory :: "nat \<Rightarrow> byte"
  gfx :: "nat \<Rightarrow> byte"
  delayedTimer :: byte
  soundTimer :: byte
  stack :: "nat \<Rightarrow> byte"
  key :: "nat \<Rightarrow> byte"
  drawFlag :: bool

text \<open>
  None of the methods returns a value: a call either returns, having updated the struct
  behind the pointer \<^verbatim>\<open>c\<close>, or panics. The two panics of the code are
  \<^verbatim>\<open>log.Panicf("Unknown Opcode ...", c.opcode)\<close> and the runtime's
  \<^verbatim>\<open>index out of range [i] with length n\<close>. A panic keeps the struct as it is at that
  moment, so \<open>Panics\<close> carries it.
\<close>

datatype panic = UnknownOpcode uint16 | IndexOutOfRange nat nat

datatype 'a outcome = Returns 'a | Panics panic Chip8

fun and_then :: "'a outcome \<Rightarrow> ('a \<Rightarrow> 'b outcome) \<Rightarrow> 'b outcome" where
  "and_then (Returns x) f = f x"
| "and_then (Panics p c) f = Panics p c"

section \<open>Initialization\<close>

definition getChip8Fontset :: "byte list" where
  "getChip8Fontset =
    [0xF0, 0x90, 0x90, 0x90, 0xF0,
     0x20, 0x60, 0x20, 0x20, 0x70,
     0xF0, 0x10, 0xF0, 0x80, 0xF0,
     0xF0, 0x10, 0xF0, 0x10, 0xF0,
     0x90, 0x90, 0xF0, 0x10, 0x10,
     0xF0, 0x80, 0xF0, 0x10, 0xF0,
     0xF0, 0x80, 0xF0, 0x90, 0xF0,
     0xF0, 0x10, 0x20, 0x40, 0x40,
     0xF0, 0x90, 0xF0, 0x90, 0xF0,
     0xF0, 0x90, 0xF0, 0x10, 0xF0,
     0xF0, 0x90, 0xF0, 0x90, 0x90,
     0xE0, 0x90, 0xE0, 0x90, 0xE0,
     0xF0, 0x80, 0x80, 0x80, 0xF0,
     0xE0, 0x90, 0x90, 0x90, 0xE0,
     0xF0, 0x80, 0xF0, 0x80, 0xF0,
     0xF0, 0x80, 0xF0, 0x80, 0x80]"

text \<open>
  \<^verbatim>\<open>for i := 0; i < n; i++ { a[i] = 0 }\<close>: after \<open>n\<close> rounds the indices below \<open>n\<close>
  are cleared.
\<close>

primrec clear_loop :: "nat \<Rightarrow> (nat \<Rightarrow> byte) \<Rightarrow> (nat \<Rightarrow> byte)" where
  "clear_loop 0 a = a"
| "clear_loop (Suc n) a = (clear_loop n a)(n := 0)"

text \<open>\<^verbatim>\<open>for i := 0; i < n; i++ { c.memory[i] = getChip8Fontset()[i] }\<close>\<close>

primrec fontset_loop :: "nat \<Rightarrow> (nat \<Rightarrow> byte) \<Rightarrow> (nat \<Rightarrow> byte)" where
  "fontset_loop 0 m = m"
| "fontset_loop (Suc n) m = (fontset_loop n m)(n := getChip8Fontset ! n)"

text \<open>
  \<^verbatim>\<open>initialize\<close>, statement by statement. The seeding of the global random source
  is outside the struct; the random draw of opcode \<^verbatim>\<open>0xC\<close> is a parameter of \<open>decode\<close>.
\<close>

definition initialize :: "Chip8 \<Rightarrow> Chip8" where
  "initialize c =
    (let c = c\<lparr>pc := 0x200\<rparr>;
         c = c\<lparr>opcode := 0\<rparr>;
         c = c\<lparr>ir := 0\<rparr>;
         c = c\<lparr>sp := 0\<rparr>;
         c = c\<lparr>gfx := clear_loop GFX_SIZE (gfx c)\<rparr>;
         c = c\<lparr>stack := clear_loop TWO_BYTES_SIZE (stack c)\<rparr>;
         c = c\<lparr>key := clear_loop TWO_BYTES_SIZE (key c), V := clear_loop TWO_BYTES_SIZE (V c)\<rparr>;
         c = c\<lparr>memory := clear_loop MEMORY_SIZE (memory c)\<rparr>;
         c = c\<lparr>memory := fontset_loop FONTSET_SIZE (memory c)\<rparr>;
         c = c\<lparr>delayedTimer := 0\<rparr>;
         c = c\<lparr>soundTimer := 0\<rparr>
     in c\<lparr>drawFlag := True\<rparr>)"

section \<open>The cycle: fetch, decode, execute\<close>

text \<open>
  \<^verbatim>\<open>opcode := c.memory[c.pc]<<8 | c.memory[c.pc+1]\<close>: both operands are bytes, so the
  shift and the \<^verbatim>\<open>|\<close> are computed on 8 bits, and only then is the result widened by
  \<^verbatim>\<open>Opcode(opcode)\<close>. The index \<^verbatim>\<open>c.pc+1\<close> is computed on 16 bits. The left operand is
  indexed first.
\<close>

definition fetch :: "Chip8 \<Rightarrow> Chip8 outcome" where
  "fetch c =
    (if MEMORY_SIZE \<le> unat (pc c) then Panics (IndexOutOfRange (unat (pc c)) MEMORY_SIZE) c
     else if MEMORY_SIZE \<le> unat (pc c + 1) then
       Panics (IndexOutOfRange (unat (pc c + 1)) MEMORY_SIZE) c
     else Returns (c\<lparr>opcode :=
       ucast (push_bit 8 (memory c (unat (pc c))) OR memory c (unat (pc c + 1)))\<rparr>))"

definition incrementProgramCounter :: "Chip8 \<Rightarrow> Chip8" where
  "incrementProgramCounter c = c\<lparr>pc := pc c + 2\<rparr>"

definition execute :: "Chip8 \<Rightarrow> Chip8" where
  "execute c = c\<lparr>pc := pc c + 2\<rparr>"

text \<open>
  \<^verbatim>\<open>vXPos := c.opcode&0xF00>>8\<close> and \<^verbatim>\<open>vYPos := c.opcode&0x0F0>>4\<close>: in Go \<^verbatim>\<open>&\<close> and
  \<^verbatim>\<open>>>\<close> have the same precedence and associate to the left.
\<close>

definition vXPos :: "Chip8 \<Rightarrow> uint16" where
  "vXPos c = drop_bit 8 (opcode c AND 0xF00)"

definition vYPos :: "Chip8 \<Rightarrow> uint16" where
  "vYPos c = drop_bit 4 (opcode c AND 0x0F0)"

text \<open>
  The \<^verbatim>\<open>switch\<close> of \<^verbatim>\<open>decode\<close>, case by case in the order of the source (a Go case does
  not fall through). \<open>rnd\<close> is the value \<^verbatim>\<open>rand.Intn(255)\<close> returns in case \<^verbatim>\<open>0xC000\<close>.
  The indices \<open>vXPos\<close> and \<open>vYPos\<close> are below 16 (lemmas \<open>vXPos_less\<close>,
  \<open>vYPos_less\<close>), so an access to \<^verbatim>\<open>c.V\<close> never panics; \<^verbatim>\<open>c.stack[c.sp]\<close> can.
\<close>

definition decode_switch :: "nat \<Rightarrow> Chip8 \<Rightarrow> Chip8 outcome" where
  "decode_switch rnd c =
    (let x = unat (vXPos c); y = unat (vYPos c) in
     if opcode c AND 0xF000 = 0x0000 then
       (if opcode c AND 0x000F = 0x0000 then
          Returns (incrementProgramCounter (c\<lparr>gfx := clear_loop GFX_SIZE (gfx c)\<rparr>))
        else if opcode c AND 0x000F = 0x000E then
          (let c = c\<lparr>sp := sp c - 1\<rparr> in
           if TWO_BYTES_SIZE \<le> unat (sp c)
           then Panics (IndexOutOfRange (unat (sp c)) TWO_BYTES_SIZE) c
           else Returns (incrementProgramCounter (c\<lparr>pc := ucast (stack c (unat (sp c)))\<rparr>)))
        else Panics (UnknownOpcode (opcode c)) c)
     else if opcode c AND 0xF000 = 0x1000 then
       Returns (c\<lparr>pc := opcode c AND 0x0FFF\<rparr>)
     else if opcode c AND 0xF000 = 0x2000 then
       (if TWO_BYTES_SIZE \<le> unat (sp c)
        then Panics (IndexOutOfRange (unat (sp c)) TWO_BYTES_SIZE) c
        else (let c = c\<lparr>stack := (stack c)(unat (sp c) := ucast (pc c))\<rparr>;
                  c = c\<lparr>sp := sp c + 1\<rparr>
              in Returns (c\<lparr>pc := opcode c AND 0x0FFF\<rparr>)))
     else if opcode c AND 0xF000 = 0x3000 then
       (let Vx = V c x; kk = (ucast (opcode c AND 0x00FF) :: byte);
            c = (if Vx = kk then incrementProgramCounter c else c)
        in Returns (incrementProgramCounter c))
     else if opcode c AND 0xF000 = 0x4000 then
       (let Vx = V c x; kk = (ucast (opcode c AND 0x00FF) :: byte);
            c = (if Vx \<noteq> kk then incrementProgramCounter c else c)
        in Returns (incrementProgramCounter c))
     else if opcode c AND 0xF000 = 0x5000 then
       (let Vx = V c x; Vy = V c y;
            c = (if Vx = Vy then incrementProgramCounter c else c)
        in Returns (incrementProgramCounter c))
     else if opcode c AND 0xF000 = 0x6000 then
       Returns (incrementProgramCounter (c\<lparr>V := (V c)(x := ucast (opcode c AND 0x00FF))\<rparr>))
     else if opcode c AND 0xF000 = 0x7000 then
       Returns (incrementProgramCounter
         (c\<lparr>V := (V c)(x := V c x + ucast (opcode c AND 0x00FF))\<rparr>))
     else if opcode c AND 0xF000 = 0x8000 then
       (if opcode c AND 0x000F = 0x0000 then
          Returns (incrementProgramCounter (c\<lparr>V := (V c)(x := V c y)\<rparr>))
        else if opcode c AND 0x000F = 0x0001 then
          Returns (incrementProgramCounter (c\<lparr>V := (V c)(x := V c x OR V c y)\<rparr>))
        else if opcode c AND 0x000F = 0x0002 then
          Returns (incrementProgramCounter (c\<lparr>V := (V c)(x := V c x AND V c y)\<rparr>))
        else if opcode c AND 0x000F = 0x0003 then
          Returns (incrementProgramCounter (c\<lparr>V := (V c)(x := V c x XOR V c y)\<rparr>))
        else if opcode c AND 0x000F = 0x0004 then
          (let c = c\<lparr>V := (V c)(0xF := 0)\<rparr>;
               c = (if V c x > 0xFF - V c y then c\<lparr>V := (V c)(0xF := 1)\<rparr> else c);
               c = c\<lparr>V := (V c)(x := V c x + V c (unat (drop_bit 4 (vYPos c))))\<rparr>
           in Returns (incrementProgramCounter c))
        else if opcode c AND 0x000F = 0x0005 then
          (let c = c\<lparr>V := (V c)(0xF := 0)\<rparr>;
               c = (if V c x > 0xFF - V c y then c\<lparr>V := (V c)(0xF := 1)\<rparr> else c);
               c = c\<lparr>V := (V c)(x := V c x - V c y)\<rparr>
           in Returns (incrementProgramCounter c))
        else if opcode c AND 0x000F = 0x0006 then
          (let c = c\<lparr>V := (V c)(0xF := 0)\<rparr>;
               c = (if V c x AND 0x1 = 1 then c\<lparr>V := (V c)(0xF := 1)\<rparr> else c);
               c = c\<lparr>V := (V c)(x := drop_bit 1 (V c x))\<rparr>
           in Returns (incrementProgramCounter c))
        else if opcode c AND 0x000F = 0x0007 then
          (let c = c\<lparr>V := (V c)(0xF := 0)\<rparr>;
               c = (if V c y > V c x then c\<lparr>V := (V c)(0xF := 1)\<rparr> else c);
               c = c\<lparr>V := (V c)(x := V c y - V c x)\<rparr>
           in Returns (incrementProgramCounter c))
        else if opcode c AND 0x000F = 0x000E then
          (let c = c\<lparr>V := (V c)(0xF := 0)\<rparr>;
               c = (if drop_bit 7 (V c y) = 1 then c\<lparr>V := (V c)(0xF := 1)\<rparr> else c);
               c = c\<lparr>V := (V c)(x := push_bit 1 (V c x))\<rparr>
           in Returns (incrementProgramCounter c))
        else Panics (UnknownOpcode (opcode c)) c)
     else if opcode c AND 0xF000 = 0x9000 then
       (let c = (if V c x \<noteq> V c y then incrementProgramCounter c else c)
        in Returns (incrementProgramCounter c))
     else if opcode c AND 0xF000 = 0xA000 then
       Returns (incrementProgramCounter (c\<lparr>ir := opcode c AND 0x0FFF\<rparr>))
     else if opcode c AND 0xF000 = 0xB000 then
       Returns (c\<lparr>pc := (opcode c AND 0x0FFF) + ucast (V c 0)\<rparr>)
     else if opcode c AND 0xF000 = 0xC000 then
       Returns (incrementProgramCounter
         (c\<lparr>V := (V c)(x := word_of_nat (rnd mod 0xFF) AND ucast (opcode c AND 0x00FF))\<rparr>))
     else if opcode c AND 0xF000 = 0xD000 then Returns c
     else if opcode c AND 0xF000 = 0xE000 then Returns c
     else if opcode c AND 0xF000 = 0xF000 then Returns c
     else Panics (UnknownOpcode (opcode c)) c)"

text \<open>
  The end of \<^verbatim>\<open>decode\<close>, after the \<^verbatim>\<open>switch\<close>: the two timers. The decrement of the
  sound timer stands inside the test \<^verbatim>\<open>c.soundTimer == 1\<close>. The second component is
  what \<^verbatim>\<open>log.Println\<close> wrote during the call.
\<close>

definition decode_timers :: "Chip8 \<Rightarrow> Chip8 \<times> string list" where
  "decode_timers c =
    (let c = (if delayedTimer c > 0 then c\<lparr>delayedTimer := delayedTimer c - 1\<rparr> else c) in
     if soundTimer c > 0 then
       (if soundTimer c = 1 then (c\<lparr>soundTimer := soundTimer c - 1\<rparr>, [''BEEP!''])
        else (c, []))
     else (c, []))"

definition decode :: "nat \<Rightarrow> Chip8 \<Rightarrow> (Chip8 \<times> string list) outcome" where
  "decode rnd c = and_then (decode_switch rnd c) (\<lambda>c. Returns (decode_timers c))"

text \<open>
  \<^verbatim>\<open>EmulateCycle\<close> calls \<^verbatim>\<open>fetch\<close>, \<^verbatim>\<open>decode\<close> and \<^verbatim>\<open>execute\<close> in turn.
  \<open>decode_execute\<close> is its part after \<^verbatim>\<open>fetch\<close>: the instruction in \<^verbatim>\<open>c.opcode\<close> is
  decoded and \<^verbatim>\<open>execute\<close> runs.
\<close>

definition decode_execute :: "nat \<Rightarrow> Chip8 \<Rightarrow> (Chip8 \<times> string list) outcome" where
  "decode_execute rnd c =
     and_then (decode rnd c) (\<lambda>(c, out). Returns (execute c, out))"

definition EmulateCycle :: "nat \<Rightarrow> Chip8 \<Rightarrow> (Chip8 \<times> string list) outcome" where
  "EmulateCycle rnd c = and_then (fetch c) (decode_execute rnd)"

text \<open>
  Go's zero value of the struct, the machine before \<^verbatim>\<open>initialize\<close>, used for the
  concrete machines below.
\<close>

definition zero_Chip8 :: Chip8 where
  "zero_Chip8 = \<lparr>V = (\<lambda>_. 0), ir = 0, pc = 0, sp = 0, opcode = 0, memory = (\<lambda>_. 0),
     gfx = (\<lambda>_. 0), delayedTimer = 0, soundTimer = 0, stack = (\<lambda>_. 0), key = (\<lambda>_. 0),
     drawFlag = False\<rparr>"

section \<open>Concrete machines and instruction sequences\<close>

text \<open>
  The machine after \<^verbatim>\<open>initialize\<close> on a fresh struct; a machine whose memory holds the
  bytes \<open>bs\<close> from address \<^verbatim>\<open>0x200\<close> on, the place where a program is loaded.
\<close>

definition booted :: Chip8 where
  "booted = initialize zero_Chip8"

definition with_program :: "byte list \<Rightarrow> Chip8 \<Rightarrow> Chip8" where
  "with_program bs c =
     c\<lparr>memory := (\<lambda>i. if 0x200 \<le> i \<and> i < 0x200 + length bs then bs ! (i - 0x200)
                       else memory c i)\<rparr>"

text \<open>
  A sequence of instruction words, each one put into \<^verbatim>\<open>c.opcode\<close> and then decoded and
  executed as in \<^verbatim>\<open>EmulateCycle\<close>; the run stops at the first panic, and the lines
  logged are collected in order.
\<close>

fun run_opcodes :: "nat \<Rightarrow> uint16 list \<Rightarrow> Chip8 \<Rightarrow> (Chip8 \<times> string list) outcome" where
  "run_opcodes rnd [] c = Returns (c, [])"
| "run_opcodes rnd (w # ws) c =
     and_then (decode_execute rnd (c\<lparr>opcode := w\<rparr>)) (\<lambda>(c, out).
     and_then (run_opcodes rnd ws c) (\<lambda>(c, out'). Returns (c, out @ out')))"

section \<open>Basic facts\<close>

lemma clear_loop_apply: "clear_loop n a i = (if i < n then 0 else a i)"
  by (induction n) auto

lemma fontset_loop_apply:
  "fontset_loop n m i = (if i < n then getChip8Fontset ! i else m i)"
  by (induction n) auto

lemma initialize_eq:
  "initialize c = c\<lparr>pc := 0x200, opcode := 0, ir := 0, sp := 0,
     gfx := (\<lambda>i. if i < 2048 then 0 else gfx c i),
     stack := (\<lambda>i. if i < 16 then 0 else stack c i),
     key := (\<lambda>i. if i < 16 then 0 else key c i),
     V := (\<lambda>i. if i < 16 then 0 else V c i),
     memory := (\<lambda>i. if i < 80 then getChip8Fontset ! i
                     else if i < 4096 then 0 else memory c i),
     delayedTimer := 0, soundTimer := 0, drawFlag := True\<rparr>"
  by (simp add: initialize_def Let_def clear_loop_apply fontset_loop_apply fun_eq_iff)

lemma booted_eq:
  "booted = \<lparr>V = (\<lambda>_. 0), ir = 0, pc = 0x200, sp = 0, opcode = 0,
     memory = (\<lambda>i. if i < 80 then getChip8Fontset ! i else 0),
     gfx = (\<lambda>_. 0), delayedTimer = 0, soundTimer = 0, stack = (\<lambda>_. 0), key = (\<lambda>_. 0),
     drawFlag = True\<rparr>"
  by (simp add: booted_def initialize_eq zero_Chip8_def fun_eq_iff)

subsection \<open>Register indices stay inside \<^verbatim>\<open>c.V\<close>\<close>

lemma and_15_less: "unat ((w :: uint16) AND 0xF) < 16"
proof -
  have "w AND 0xF \<le> 0xF"
    by (rule word_and_le1)
  then have "unat (w AND 0xF) \<le> unat (0xF :: uint16)"
    by (simp add: word_le_nat_alt)
  then show ?thesis
    by simp
qed

lemma vXPos_less: "unat (vXPos c) < 16"
  unfolding vXPos_def using and_15_less by force

lemma vYPos_less: "unat (vYPos c) < 16"
  unfolding vYPos_def using and_15_less by force

subsection \<open>What \<^verbatim>\<open>fetch\<close> computes\<close>

lemma shift_byte_8: "push_bit 8 (b :: byte) = 0"
  by (rule bit_word_eqI) (simp add: bit_simps)

lemma fetch_low_byte:
  "unat (pc c) + 1 < 4096 \<Longrightarrow>
   fetch c = Returns (c\<lparr>opcode := ucast (memory c (unat (pc c) + 1))\<rparr>)"
  by (simp add: fetch_def shift_byte_8 unat_word_ariths)

lemma byte_mask: "(ucast (b :: byte) :: uint16) AND 0xFF = ucast b"
proof -
  have "(ucast b :: uint16) AND mask 8 = ucast b"
    by (rule bit_word_eqI) (auto simp add: bit_simps dest: bit_imp_le_length)
  then show ?thesis
    by (simp add: mask_numeral)
qed

lemma byte_family: "(ucast (b :: byte) :: uint16) AND 0xF000 = 0"
proof -
  have "(ucast b :: uint16) AND 0xF000 = (ucast b AND 0xFF) AND 0xF000"
    by (simp only: byte_mask)
  also have "\<dots> = ucast b AND (0xFF AND 0xF000)"
    by (simp only: and.assoc)
  finally show ?thesis
    by simp
qed

text \<open>Whatever the memory holds, a fetched instruction word is below \<^verbatim>\<open>0x100\<close>, so the
  \<^verbatim>\<open>switch\<close> of \<^verbatim>\<open>decode\<close> is entered at \<^verbatim>\<open>case 0x0000\<close>.\<close>

lemma fetch_family_0:
  "fetch c = Returns c' \<Longrightarrow> opcode c' AND 0xF000 = 0x0000"
  by (auto simp add: fetch_def shift_byte_8 byte_family split: if_splits)

subsection \<open>The timers\<close>

lemma decode_timers_frame:
  "memory (fst (decode_timers c)) = memory c \<and> gfx (fst (decode_timers c)) = gfx c \<and>
   stack (fst (decode_timers c)) = stack c \<and> sp (fst (decode_timers c)) = sp c \<and>
   ir (fst (decode_timers c)) = ir c \<and> key (fst (decode_timers c)) = key c \<and>
   drawFlag (fst (decode_timers c)) = drawFlag c \<and> V (fst (decode_timers c)) = V c \<and>
   pc (fst (decode_timers c)) = pc c \<and> opcode (fst (decode_timers c)) = opcode c"
  by (simp add: decode_timers_def Let_def)

lemma delay_timer_decrements:
  "delayedTimer (fst (decode_timers c)) =
     (if delayedTimer c = 0 then 0 else delayedTimer c - 1)"
  by (simp add: decode_timers_def Let_def word_greater_zero_iff)

lemma sound_timer_stuck:
  "1 < soundTimer c \<Longrightarrow>
   soundTimer (fst (decode_timers c)) = soundTimer c \<and> snd (decode_timers c) = []"
  by (auto simp add: decode_timers_def Let_def)

lemma sound_timer_beeps:
  "soundTimer c = 1 \<Longrightarrow>
   soundTimer (fst (decode_timers c)) = 0 \<and> snd (decode_timers c) = [''BEEP!'']"
  by (simp add: decode_timers_def Let_def)

subsection \<open>The default branches and the call stack\<close>

lemma decode_default:
  assumes "opcode c AND 0xF000 = 0x0000 \<and> opcode c AND 0x000F \<notin> {0x0, 0xE} \<or>
     opcode c AND 0xF000 = 0x8000 \<and> opcode c AND 0x000F \<notin> {0, 1, 2, 3, 4, 5, 6, 7, 0xE}"
  shows "decode_switch rnd c = Panics (UnknownOpcode (opcode c)) c"
  using assms by (auto simp add: decode_switch_def Let_def)

lemma byte_nibble: "(ucast (b :: byte) :: uint16) AND 0xF = ucast (b AND 0xF)"
proof -
  have "(ucast (b AND mask 4) :: uint16) = ucast b AND mask 4"
    by (rule bit_word_eqI) (auto simp add: bit_simps dest: bit_imp_le_length)
  then show ?thesis
    by (simp add: mask_numeral)
qed

lemma narrow_widen: "(ucast (ucast (a :: byte) :: uint16) :: byte) = a"
  by (rule ucast_up_ucast_id) (simp add: is_up)

lemma widen_eq: "(ucast (a :: byte) :: uint16) = ucast b \<longleftrightarrow> a = b"
  by (metis narrow_widen)

text \<open>
  A whole cycle on a byte whose low nibble is neither \<^verbatim>\<open>0x0\<close> nor \<^verbatim>\<open>0xE\<close>: the panic
  leaves the struct as \<^verbatim>\<open>fetch\<close> left it, with nothing but \<^verbatim>\<open>c.opcode\<close> written.
\<close>

lemma EmulateCycle_default_branch:
  assumes "unat (pc c) + 1 < 4096" "memory c (unat (pc c) + 1) AND 0xF \<notin> {0x0, 0xE}"
  shows "EmulateCycle rnd c =
     Panics (UnknownOpcode (ucast (memory c (unat (pc c) + 1))))
       (c\<lparr>opcode := ucast (memory c (unat (pc c) + 1))\<rparr>)"
proof -
  let ?b = "memory c (unat (pc c) + 1)"
  let ?c1 = "c\<lparr>opcode := ucast ?b\<rparr>"
  have "ucast (?b AND 0xF) \<noteq> (ucast (0 :: byte) :: uint16)"
    "ucast (?b AND 0xF) \<noteq> (ucast (0xE :: byte) :: uint16)"
    using assms(2) by (simp_all only: widen_eq) simp_all
  then have "opcode ?c1 AND 0xF000 = 0x0000 \<and> opcode ?c1 AND 0x000F \<notin> {0x0, 0xE}"
    by (simp add: byte_family byte_nibble)
  then have "decode_switch rnd ?c1 = Panics (UnknownOpcode (opcode ?c1)) ?c1"
    by (intro decode_default) simp
  then show ?thesis
    by (simp add: EmulateCycle_def fetch_low_byte [OF assms(1)] decode_execute_def decode_def)
qed

lemma call_step:
  assumes "w AND 0xF000 = 0x2000" "unat (sp c) < 16" "delayedTimer c = 0" "soundTimer c = 0"
  shows "decode_execute rnd (c\<lparr>opcode := w\<rparr>) =
     Returns (c\<lparr>opcode := w, stack := (stack c)(unat (sp c) := ucast (pc c)), sp := sp c + 1,
        pc := (w AND 0x0FFF) + 2\<rparr>, [])"
  using assms
  by (simp add: decode_execute_def decode_def decode_switch_def decode_timers_def execute_def
      Let_def)

lemma call_overflow:
  assumes "w AND 0xF000 = 0x2000" "sp c = 16"
  shows "decode_execute rnd (c\<lparr>opcode := w\<rparr>) =
     Panics (IndexOutOfRange 16 16) (c\<lparr>opcode := w\<rparr>)"
  using assms by (simp add: decode_execute_def decode_def decode_switch_def)

lemma run_calls:
  assumes "\<forall>w \<in> set ws. w AND 0xF000 = 0x2000" "unat (sp c) + length ws \<le> 16"
    "delayedTimer c = 0" "soundTimer c = 0"
  shows "\<exists>c'. run_opcodes rnd ws c = Returns (c', []) \<and>
     unat (sp c') = unat (sp c) + length ws \<and> delayedTimer c' = 0 \<and> soundTimer c' = 0"
  using assms
proof (induction ws arbitrary: c)
  case Nil
  then show ?case
    by simp
next
  case (Cons w ws)
  let ?c1 = "c\<lparr>opcode := w, stack := (stack c)(unat (sp c) := ucast (pc c)), sp := sp c + 1,
        pc := (w AND 0x0FFF) + 2\<rparr>"
  from Cons.prems have below: "unat (sp c) < 16"
    by simp
  have first: "decode_execute rnd (c\<lparr>opcode := w\<rparr>) = Returns (?c1, [])"
    using Cons.prems below by (intro call_step) simp_all
  have pushed: "unat (sp ?c1) = unat (sp c) + 1"
    using below by (simp add: unat_word_ariths)
  obtain c' where "run_opcodes rnd ws ?c1 = Returns (c', [])"
    "unat (sp c') = unat (sp ?c1) + length ws" "delayedTimer c' = 0" "soundTimer c' = 0"
    using Cons.IH [of ?c1] Cons.prems pushed by auto
  then show ?case
    using first pushed by simp
qed

subsection \<open>The cases that only touch registers and program counter\<close>

lemma switch_frame:
  assumes "opcode c AND 0xF000 \<in> {0x3000, 0x4000, 0x5000, 0x6000, 0x7000, 0x9000} \<or>
     opcode c AND 0xF000 = 0x8000 \<and> opcode c AND 0x000F \<in> {0, 1, 2, 3, 4, 5, 6, 7, 0xE}"
  shows "\<exists>c'. decode_switch rnd c = Returns c' \<and> memory c' = memory c \<and> gfx c' = gfx c \<and>
     stack c' = stack c \<and> sp c' = sp c \<and> ir c' = ir c \<and> key c' = key c \<and>
     drawFlag c' = drawFlag c"
  using assms
  apply (elim disjE conjE insertE emptyE)
  apply (simp_all add: decode_switch_def Let_def incrementProgramCounter_def)
  done

section \<open>The claims\<close>

text \<open>
  Claim C1 says that the fetched instruction word is \<^verbatim>\<open>memory[PC]*256 + memory[PC+1]\<close>.
  On the machine loaded with the bytes \<^verbatim>\<open>0x60 0x05\<close> at \<^verbatim>\<open>0x200\<close> that word would be
  \<^verbatim>\<open>0x6005\<close>. The code shifts the byte \<^verbatim>\<open>memory[PC]\<close> by 8 before widening it, which
  leaves nothing of it: \<^verbatim>\<open>fetch\<close> stores \<^verbatim>\<open>0x0005\<close>, the low byte alone.
\<close>

theorem C1_fetch_keeps_low_byte_only:
  "pc (with_program [0x60, 0x05] booted) = 0x200 \<and>
   memory (with_program [0x60, 0x05] booted) 0x200 = 0x60 \<and>
   memory (with_program [0x60, 0x05] booted) 0x201 = 0x05 \<and>
   fetch (with_program [0x60, 0x05] booted) =
     Returns ((with_program [0x60, 0x05] booted)\<lparr>opcode := 0x0005\<rparr>)"
  by (simp add: fetch_def with_program_def booted_eq shift_byte_8)

text \<open>
  Claim C2 says that an instruction either sets the program counter or advances it by 2,
  never twice, so that \<^verbatim>\<open>0x6005\<close> followed by \<^verbatim>\<open>0x7003\<close> moves it by 4. In the code
  \<^verbatim>\<open>decode\<close> advances by 2 and \<^verbatim>\<open>execute\<close> advances by 2 again: from \<^verbatim>\<open>0x200\<close> the two
  instructions leave \<^verbatim>\<open>V0 = 8\<close>, as claimed, and the program counter at \<^verbatim>\<open>0x208\<close>.
\<close>

theorem C2_two_instructions_advance_by_8:
  "\<exists>c'. run_opcodes 0 [0x6005, 0x7003] booted = Returns (c', []) \<and>
     V c' 0 = 8 \<and> pc booted = 0x200 \<and> pc c' = 0x208"
  by (simp add: booted_eq decode_execute_def decode_def decode_switch_def decode_timers_def
      incrementProgramCounter_def execute_def vXPos_def vYPos_def)

text \<open>
  Claim C3, as amended: when the instruction word is one of family \<^verbatim>\<open>0x0\<close> whose low nibble
  is neither \<^verbatim>\<open>0x0\<close> nor \<^verbatim>\<open>0xE\<close>, or one of family \<^verbatim>\<open>0x8\<close> whose low nibble is none of
  \<^verbatim>\<open>0\<close> to \<^verbatim>\<open>7\<close> and \<^verbatim>\<open>0xE\<close>, \<^verbatim>\<open>decode\<close> panics with the unknown-opcode message, the
  panic passes through the rest of the cycle, and the struct at the panic is the one
  \<^verbatim>\<open>decode\<close> was called on: no field has been written.
\<close>

theorem C3_default_branch_panics:
  assumes "opcode c AND 0xF000 = 0x0000 \<and> opcode c AND 0x000F \<notin> {0x0, 0xE} \<or>
     opcode c AND 0xF000 = 0x8000 \<and> opcode c AND 0x000F \<notin> {0, 1, 2, 3, 4, 5, 6, 7, 0xE}"
  shows "decode rnd c = Panics (UnknownOpcode (opcode c)) c \<and>
     decode_execute rnd c = Panics (UnknownOpcode (opcode c)) c"
  by (simp add: decode_execute_def decode_def decode_default [OF assms])

text \<open>Claim C3, the amended statement at the instruction word \<^verbatim>\<open>0x8008\<close>.\<close>

theorem C3_default_branch_panics_witness:
  "decode 0 (booted\<lparr>opcode := 0x8008\<rparr>) =
     Panics (UnknownOpcode 0x8008) (booted\<lparr>opcode := 0x8008\<rparr>) \<and>
   decode_execute 0 (booted\<lparr>opcode := 0x8008\<rparr>) =
     Panics (UnknownOpcode 0x8008) (booted\<lparr>opcode := 0x8008\<rparr>)"
  using C3_default_branch_panics [of "booted\<lparr>opcode := 0x8008\<rparr>" 0] by simp

text \<open>
  Claim C3 as stated fails. The word \<^verbatim>\<open>0xFFFF\<close> matches no instruction, yet the step
  reports nothing: case \<^verbatim>\<open>0xF000\<close> has no default branch, \<^verbatim>\<open>decode\<close> returns and
  \<^verbatim>\<open>execute\<close> moves the program counter from \<^verbatim>\<open>0x200\<close> to \<^verbatim>\<open>0x202\<close>. And where the code
  does reject a word, here \<^verbatim>\<open>0x0001\<close>, the step does not return to its caller with a
  failure value: it panics.
\<close>

theorem C3_unknown_opcode_counterexample:
  "decode_execute 0 (booted\<lparr>opcode := 0xFFFF\<rparr>) =
     Returns (execute (booted\<lparr>opcode := 0xFFFF\<rparr>), []) \<and>
   pc (booted\<lparr>opcode := 0xFFFF\<rparr>) = 0x200 \<and>
   pc (execute (booted\<lparr>opcode := 0xFFFF\<rparr>)) = 0x202 \<and>
   decode_execute 0 (booted\<lparr>opcode := 0x0001\<rparr>) =
     Panics (UnknownOpcode 0x0001) (booted\<lparr>opcode := 0x0001\<rparr>)"
  by (simp add: booted_eq decode_execute_def decode_def decode_switch_def decode_timers_def
      execute_def)

text \<open>
  Claim C4 says that \<^verbatim>\<open>0x8014\<close> with \<^verbatim>\<open>V0 = 0xFF\<close> and \<^verbatim>\<open>V1 = 0x01\<close> yields
  \<^verbatim>\<open>V0 = 0x00\<close> and \<^verbatim>\<open>VF = 1\<close>. The code adds \<^verbatim>\<open>c.V[(vYPos) >> 4]\<close>, which is
  \<^verbatim>\<open>c.V[0]\<close> for every \<open>y\<close>: the result is \<^verbatim>\<open>V0 = 0xFF + 0xFF = 0xFE\<close>, with \<^verbatim>\<open>VF = 1\<close>.
\<close>

theorem C4_add_reads_register_0:
  "\<exists>c'. decode_execute 0 (booted\<lparr>V := (\<lambda>_. 0)(0 := 0xFF, 1 := 0x01), opcode := 0x8014\<rparr>) =
       Returns (c', []) \<and> V c' 0 = 0xFE \<and> V c' 0xF = 1"
  by (simp add: booted_eq decode_execute_def decode_def decode_switch_def decode_timers_def
      incrementProgramCounter_def execute_def vXPos_def vYPos_def)

text \<open>
  Claim C5 says that \<^verbatim>\<open>0x8xy5\<close> sets \<^verbatim>\<open>VF = 1\<close> when \<^verbatim>\<open>Vx >= Vy\<close>. The code tests
  \<^verbatim>\<open>Vx > 0xFF - Vy\<close>, the carry test of the addition: with \<^verbatim>\<open>V0 = 5\<close> and \<^verbatim>\<open>V1 = 3\<close>,
  \<^verbatim>\<open>0x8015\<close> leaves \<^verbatim>\<open>V0 = 2\<close> and \<^verbatim>\<open>VF = 0\<close>.
\<close>

theorem C5_sub_flag_is_carry_test:
  "\<exists>c'. decode_execute 0 (booted\<lparr>V := (\<lambda>_. 0)(0 := 5, 1 := 3), opcode := 0x8015\<rparr>) =
       Returns (c', []) \<and> V c' 0 = 2 \<and> V c' 0xF = 0"
  by (simp add: booted_eq decode_execute_def decode_def decode_switch_def decode_timers_def
      incrementProgramCounter_def execute_def vXPos_def vYPos_def)

text \<open>
  Claim C6 says that a call followed by a return resumes at the instruction after the call,
  \<^verbatim>\<open>0x202\<close> for a call at \<^verbatim>\<open>0x200\<close>. A stack slot is one byte and the call stores
  \<^verbatim>\<open>byte(c.pc)\<close>, so the return reads back \<^verbatim>\<open>0x00\<close>; with the two advances of the return the
  program counter ends at \<^verbatim>\<open>0x004\<close>. The stack pointer is back at 0.
\<close>

theorem C6_return_address_truncated:
  "\<exists>c'. run_opcodes 0 [0x2300, 0x00EE] booted = Returns (c', []) \<and>
     pc booted = 0x200 \<and> sp booted = 0 \<and> pc c' = 0x004 \<and> sp c' = 0"
  by (simp add: booted_eq decode_execute_def decode_def decode_switch_def decode_timers_def
      incrementProgramCounter_def execute_def vXPos_def vYPos_def)

text \<open>
  Claim C7, as amended: on an initialized machine 16 call instructions in a row all return,
  the stack pointer reaching 16; a 17th call, with the stack pointer at 16, writes nothing:
  the bounds check of \<^verbatim>\<open>c.stack[c.sp]\<close> panics with index 16 out of range for length 16,
  and the struct at the panic is the one \<^verbatim>\<open>decode\<close> was called on.
\<close>

theorem C7_sixteen_calls_then_panic:
  assumes "length ws = 16" "\<forall>w \<in> set ws. w AND 0xF000 = 0x2000" "w17 AND 0xF000 = 0x2000"
  shows "\<exists>c'. run_opcodes rnd ws (initialize c) = Returns (c', []) \<and> sp c' = 16 \<and>
     decode_execute rnd (c'\<lparr>opcode := w17\<rparr>) =
       Panics (IndexOutOfRange 16 16) (c'\<lparr>opcode := w17\<rparr>)"
proof -
  obtain c' where run: "run_opcodes rnd ws (initialize c) = Returns (c', [])"
    and depth: "unat (sp c') = unat (sp (initialize c)) + length ws"
    using run_calls [of ws "initialize c" rnd] assms by (auto simp add: initialize_eq)
  from depth assms have "unat (sp c') = 16"
    by (simp add: initialize_eq)
  then have "sp c' = 16"
    by (simp add: word_unat_eq_iff)
  then show ?thesis
    using run call_overflow [OF assms(3)] by simp
qed

text \<open>Claim C7, the amended statement for sixteen calls of \<^verbatim>\<open>0x2300\<close> and a seventeenth.\<close>

theorem C7_sixteen_calls_then_panic_witness:
  "\<exists>c'. run_opcodes 0 (replicate 16 0x2300) (initialize zero_Chip8) = Returns (c', []) \<and>
     sp c' = 16 \<and>
     decode_execute 0 (c'\<lparr>opcode := 0x2300\<rparr>) =
       Panics (IndexOutOfRange 16 16) (c'\<lparr>opcode := 0x2300\<rparr>)"
  using C7_sixteen_calls_then_panic [of "replicate 16 0x2300" "0x2300" 0 zero_Chip8] by simp

text \<open>
  Claim C7 as stated fails: with the stack pointer at 16 the call \<^verbatim>\<open>0x2300\<close> does not hand a
  stack-overflow failure back to its caller. The code has no such value and no test of the
  stack pointer; the step ends in the runtime's index panic.
\<close>

theorem C7_call_at_depth_16_counterexample:
  "decode_execute 0 (booted\<lparr>sp := 16, opcode := 0x2300\<rparr>) =
     Panics (IndexOutOfRange 16 16) (booted\<lparr>sp := 16, opcode := 0x2300\<rparr>)"
  by (simp add: decode_execute_def decode_def decode_switch_def booted_eq)

text \<open>
  Claim C8 says that a nonzero sound timer is decremented on every step and reaches 0 after
  as many steps. The decrement stands inside the test \<^verbatim>\<open>c.soundTimer == 1\<close>: a whole cycle
  (the memory at \<^verbatim>\<open>0x200\<close> holds zeros, which decode as clear-screen) leaves a sound timer of
  2 at 2, and nothing is logged.
\<close>

theorem C8_sound_timer_2_stays:
  "\<exists>c'. EmulateCycle 0 (booted\<lparr>soundTimer := 2\<rparr>) = Returns (c', []) \<and> soundTimer c' = 2"
  by (simp add: EmulateCycle_def fetch_def booted_eq shift_byte_8 decode_execute_def decode_def
      decode_switch_def decode_timers_def incrementProgramCounter_def execute_def)

text \<open>
  Claim C9 says that \<^verbatim>\<open>0xDxyn\<close> draws a sprite, sets \<^verbatim>\<open>VF\<close> and sets the redraw flag. Case
  \<^verbatim>\<open>0xD000\<close> of the code is empty: with the index register at the glyph \<^verbatim>\<open>0xF0 ...\<close> of
  address 0 and a clear display whose redraw flag the host has reset, \<^verbatim>\<open>0xD005\<close> changes
  nothing but the program counter, which \<^verbatim>\<open>execute\<close> advances. The pixel at column 0, row 0
  stays unset, \<^verbatim>\<open>VF\<close> stays 0 (also on a second draw) and the flag stays reset.
\<close>

theorem C9_draw_does_nothing:
  "memory (booted\<lparr>drawFlag := False, opcode := 0xD005\<rparr>) (unat (ir booted)) = 0xF0 \<and>
   decode_execute 0 (booted\<lparr>drawFlag := False, opcode := 0xD005\<rparr>) =
     Returns (execute (booted\<lparr>drawFlag := False, opcode := 0xD005\<rparr>), []) \<and>
   gfx (execute (booted\<lparr>drawFlag := False, opcode := 0xD005\<rparr>)) 0 = 0 \<and>
   V (execute (booted\<lparr>drawFlag := False, opcode := 0xD005\<rparr>)) 0xF = 0 \<and>
   drawFlag (execute (booted\<lparr>drawFlag := False, opcode := 0xD005\<rparr>)) = False"
  by (simp add: booted_eq decode_execute_def decode_def decode_switch_def decode_timers_def
      execute_def getChip8Fontset_def)

text \<open>
  Claim C10: for an instruction word of family \<^verbatim>\<open>0x3\<close>, \<^verbatim>\<open>0x4\<close>, \<^verbatim>\<open>0x5\<close>, \<^verbatim>\<open>0x6\<close>,
  \<^verbatim>\<open>0x7\<close> or \<^verbatim>\<open>0x9\<close>, or of family \<^verbatim>\<open>0x8\<close> with low nibble \<^verbatim>\<open>0\<close> to \<^verbatim>\<open>7\<close> or \<^verbatim>\<open>0xE\<close>,
  decoding and executing it returns, and memory, display buffer, stack, stack pointer,
  index register and keypad (and the redraw flag) are as before: only the registers, the
  program counter and the timers can differ.
\<close>

theorem C10_register_instructions_frame:
  assumes "opcode c AND 0xF000 \<in> {0x3000, 0x4000, 0x5000, 0x6000, 0x7000, 0x9000} \<or>
     opcode c AND 0xF000 = 0x8000 \<and> opcode c AND 0x000F \<in> {0, 1, 2, 3, 4, 5, 6, 7, 0xE}"
  shows "\<exists>c' out. decode_execute rnd c = Returns (c', out) \<and> memory c' = memory c \<and>
     gfx c' = gfx c \<and> stack c' = stack c \<and> sp c' = sp c \<and> ir c' = ir c \<and>
     key c' = key c \<and> drawFlag c' = drawFlag c"
proof -
  obtain c1 where switch: "decode_switch rnd c = Returns c1"
    and same: "memory c1 = memory c" "gfx c1 = gfx c" "stack c1 = stack c" "sp c1 = sp c"
      "ir c1 = ir c" "key c1 = key c" "drawFlag c1 = drawFlag c"
    using switch_frame [OF assms, of rnd] by blast
  have "decode_execute rnd c =
      Returns (execute (fst (decode_timers c1)), snd (decode_timers c1))"
    by (simp add: decode_execute_def decode_def switch split_beta)
  then show ?thesis
    using same decode_timers_frame [of c1] by (simp add: execute_def)
qed

text \<open>Claim C10 at the instruction \<^verbatim>\<open>0x8124\<close> on the initialized machine.\<close>

theorem C10_register_instructions_frame_witness:
  "\<exists>c' out. decode_execute 0 (booted\<lparr>opcode := 0x8124\<rparr>) = Returns (c', out) \<and>
     memory c' = memory booted \<and> gfx c' = gfx booted \<and> stack c' = stack booted \<and>
     sp c' = sp booted \<and> ir c' = ir booted \<and> key c' = key booted \<and>
     drawFlag c' = drawFlag booted"
  using C10_register_instructions_frame [of "booted\<lparr>opcode := 0x8124\<rparr>" 0] by simp

end
